theory Spec2Isabelle
  imports Complex_Main
begin

section \<open>The simulation notebooks of py-itpp and its makerules fragment\<close>

text \<open>
  The source tree holds three Jupyter notebooks and a make fragment. The notebooks are
  straight-line Python scripts: they set constants, call routines of the \<open>itpp\<close> module in
  loops and print, plot or save what the routines return. The \<open>itpp\<close> module itself (the
  IT++ codec, modulators, channels, counters and random generators) is not in the tree.

  The embedding follows that split. Every notebook cell and every loop body is a HOL
  function of the same name as the Python variable or stage it computes, prefixed by its
  notebook (\<open>ofdm_\<close>, \<open>convcode_\<close>, \<open>mimo_\<close>) where two notebooks use one name. The \<open>itpp\<close>
  module is a parameter: a record \<open>lib\<close> with one field per routine the notebooks call, so
  that every theorem about a notebook holds for whatever those routines compute. State the
  Python code mutates (the random generator, the error counters, arrays written by index)
  is passed explicitly and returned updated. A cell is referred to by the execution count
  the notebook records for it (its \<open>In [n]\<close> label).
\<close>

subsection \<open>Vectors and matrices of itpp\<close>

text \<open>
  \<open>itpp.bvec\<close>, \<open>itpp.ivec\<close>, \<open>itpp.vec\<close> and \<open>itpp.cvec\<close> are lists of bits, integers,
  reals and complex numbers (Python floats are read as reals); an \<open>itpp.cmat\<close> is the list
  of its columns.
\<close>

type_synonym bvec = "bool list"
type_synonym ivec = "int list"
type_synonym vec = "real list"
type_synonym cvec = "complex list"
type_synonym cmat = "complex list list"

text \<open>
  The container methods the notebooks call on these vectors are not in the source tree
  either. They carry no signal processing, and the notebooks' own bookkeeping rests on
  them, so they are written out on lists with the meaning the IT++ documentation and the
  notebooks' comments give them. IT++ asserts the index ranges noted below in a debug
  build; the notebooks stay inside them, and outside them the list functions here simply
  clip.

  \<^item> \<open>v.left(nr)\<close>: the first \<open>nr\<close> elements (\<open>nr \<le> length v\<close>).
  \<^item> \<open>v.mid(start, nr)\<close>: \<open>nr\<close> elements from index \<open>start\<close>.
  \<^item> \<open>v.ins(i, w)\<close>: \<open>w\<close> inserted before index \<open>i\<close> (\<open>i \<le> length v\<close>).
  \<^item> \<open>v.set_subvector(i, w)\<close>: the elements from index \<open>i\<close> on replaced by \<open>w\<close>
    (\<open>i + length w \<le> length v\<close>).
  \<^item> \<open>itpp.zeros(n)\<close>: \<open>n\<close> zeros; \<open>v.clear()\<close>: every element set to zero.
  \<^item> \<open>itpp.concat(v, w)\<close>: \<open>v\<close> followed by \<open>w\<close>.
  \<^item> \<open>m.get_col(c)\<close>: column \<open>c\<close> of a matrix.
  \<^item> \<open>v < 0\<close> on an \<open>ivec\<close>: the bit vector of the elementwise comparison.
\<close>

definition left :: "'a list \<Rightarrow> nat \<Rightarrow> 'a list" where
  "left v nr = take nr v"

definition mid :: "'a list \<Rightarrow> nat \<Rightarrow> nat \<Rightarrow> 'a list" where
  "mid v start nr = take nr (drop start v)"

definition ins :: "'a list \<Rightarrow> nat \<Rightarrow> 'a list \<Rightarrow> 'a list" where
  "ins v i w = take i v @ w @ drop i v"

definition set_subvector :: "'a list \<Rightarrow> nat \<Rightarrow> 'a list \<Rightarrow> 'a list" where
  "set_subvector v i w = take i v @ w @ drop (i + length w) v"

definition zeros :: "nat \<Rightarrow> vec" where
  "zeros n = replicate n 0"

definition clear :: "'a::zero list \<Rightarrow> 'a list" where
  "clear v = map (\<lambda>_. 0) v"

definition concat_vec :: "'a list \<Rightarrow> 'a list \<Rightarrow> 'a list" where
  "concat_vec v w = v @ w"

definition get_col :: "cmat \<Rightarrow> nat \<Rightarrow> cvec" where
  "get_col m c = m ! c"

definition less_zero :: "ivec \<Rightarrow> bvec" where
  "less_zero v = map (\<lambda>x. x < 0) v"

text \<open>
  The arithmetic the notebooks write with overloaded operators: a real scalar times a
  complex vector or matrix, the sum of two vectors, \<open>itpp.elem_mult\<close>, and a matrix times
  a vector.
\<close>

definition scale_cvec :: "real \<Rightarrow> cvec \<Rightarrow> cvec" where
  "scale_cvec a v = map (\<lambda>z. of_real a * z) v"

definition scale_cmat :: "real \<Rightarrow> cmat \<Rightarrow> cmat" where
  "scale_cmat a m = map (scale_cvec a) m"

definition add_cvec :: "cvec \<Rightarrow> cvec \<Rightarrow> cvec" where
  "add_cvec v w = map2 (+) v w"

definition elem_mult :: "cvec \<Rightarrow> cvec \<Rightarrow> cvec" where
  "elem_mult v w = map2 (*) v w"

definition mult_cmat_cvec :: "cmat \<Rightarrow> cvec \<Rightarrow> cvec" where
  "mult_cmat_cvec m v =
     foldr (\<lambda>(col, x) acc. add_cvec (map (\<lambda>z. z * x) col) acc) (zip m v)
       (replicate (case m of [] \<Rightarrow> 0 | col # _ \<Rightarrow> length col) 0)"

subsection \<open>The itpp module as a parameter\<close>

text \<open>
  Objects the notebooks configure once and then only read are passed to the routines as
  plain values: the convolutional code with its generator polynomials and constraint
  length, the modulator with its constellation, the tapped-delay-line channel with its
  profile, the interleaver with its sequence.
\<close>

record convolutional_code =
  generator_polynomials :: ivec
  constraint_length :: int

datatype modulator = BPSK_c | QAM int

datatype soft_method = LOGMAP | APPROX

datatype nd_uqam = ND_UQAM nat int

datatype soft_demod_method = FULL_ENUM_LOGMAP | ZF_LOGMAP

datatype channel_profile = ITU_Vehicular_A

record tdl_channel =
  channel_model :: channel_profile
  sampling_time :: real
  norm_doppler :: real

text \<open>
  The routines. \<open>'s\<close> is the state of the random number generator of the thread, which
  every drawing routine reads and advances; \<open>'e\<close> and \<open>'f\<close> are the states of a bit error
  counter (\<open>itpp.comm.BERC\<close>) and of a block error counter (\<open>itpp.comm.BLERC\<close>).
  \<open>RNG_reset\<close> returns the generator state that belongs to a seed.
  \<open>bvec_new\<close>, \<open>vec_new\<close> and \<open>ivec_new\<close> are the constructors \<open>itpp.bvec(n)\<close>, \<open>itpp.vec(n)\<close>
  and \<open>itpp.ivec(n)\<close>, which allocate \<open>n\<close> elements and do not say what they hold.
\<close>

record ('s, 'e, 'f) itpp =
  RNG_reset :: "nat \<Rightarrow> 's"
  randb :: "int \<Rightarrow> 's \<Rightarrow> bvec \<times> 's"
  randn_c :: "nat \<Rightarrow> 's \<Rightarrow> cvec \<times> 's"
  randn_c_mat :: "nat \<Rightarrow> nat \<Rightarrow> 's \<Rightarrow> cmat \<times> 's"
  bvec_new :: "nat \<Rightarrow> bvec"
  vec_new :: "nat \<Rightarrow> vec"
  ivec_new :: "nat \<Rightarrow> ivec"
  encode_tail :: "convolutional_code \<Rightarrow> bvec \<Rightarrow> bvec"
  decode_tail :: "convolutional_code \<Rightarrow> vec \<Rightarrow> bvec"
  encode :: "convolutional_code \<Rightarrow> bvec \<Rightarrow> bvec"
  decode :: "convolutional_code \<Rightarrow> vec \<Rightarrow> bvec"
  modulate_bits :: "modulator \<Rightarrow> bvec \<Rightarrow> cvec"
  demodulate_soft_bits :: "modulator \<Rightarrow> cvec \<Rightarrow> cvec \<Rightarrow> real \<Rightarrow> soft_method \<Rightarrow> vec"
  BPSK_modulate_bits :: "bvec \<Rightarrow> vec"
  ND_modulate_bits :: "nd_uqam \<Rightarrow> bvec \<Rightarrow> cvec"
  ND_demodulate_soft_bits ::
    "nd_uqam \<Rightarrow> cvec \<Rightarrow> cmat \<Rightarrow> real \<Rightarrow> ivec \<Rightarrow> soft_demod_method \<Rightarrow> ivec"
  to_double :: "nd_uqam \<Rightarrow> ivec \<Rightarrow> vec"
  ifft :: "cvec \<Rightarrow> nat \<Rightarrow> cvec"
  fft :: "cvec \<Rightarrow> nat \<Rightarrow> cvec"
  generate :: "tdl_channel \<Rightarrow> nat \<Rightarrow> 's \<Rightarrow> cmat \<times> 's"
  calc_frequency_response :: "tdl_channel \<Rightarrow> cmat \<Rightarrow> nat \<Rightarrow> cmat"
  AWGN_Channel :: "real \<Rightarrow> vec \<Rightarrow> 's \<Rightarrow> vec \<times> 's"
  randomize_interleaver_sequence :: "nat \<Rightarrow> 's \<Rightarrow> ivec \<times> 's"
  interleave :: "ivec \<Rightarrow> bvec \<Rightarrow> bvec"
  deinterleave :: "ivec \<Rightarrow> ivec \<Rightarrow> ivec"
  BERC :: "int \<Rightarrow> int \<Rightarrow> int \<Rightarrow> 'e"
  BERC_clear :: "'e \<Rightarrow> 'e"
  BERC_count :: "bvec \<Rightarrow> bvec \<Rightarrow> 'e \<Rightarrow> 'e"
  BERC_get_errorrate :: "'e \<Rightarrow> real"
  BERC_get_errors :: "'e \<Rightarrow> real"
  BLERC :: "int \<Rightarrow> 'f"
  BLERC_clear :: "'f \<Rightarrow> 'f"
  BLERC_count :: "bvec \<Rightarrow> bvec \<Rightarrow> 'f \<Rightarrow> 'f"
  BLERC_get_errorrate :: "'f \<Rightarrow> real"
  BLERC_get_errors :: "'f \<Rightarrow> real"

text \<open>
  All three notebooks set up the same code: the rate 1/3 code with generators 0133, 0145
  and 0175 (octal) and constraint length 7.
\<close>

definition conv_code :: convolutional_code where
  "conv_code = \<lparr>generator_polynomials = [91, 101, 125], constraint_length = 7\<rparr>"

subsection \<open>What a notebook prints, plots and saves\<close>

text \<open>
  A notebook's visible effects are the list of its output actions, in order. \<open>Print\<close> keeps
  the format string and the values formatted into it; a \<open>nan\<close> is a value of its own.
\<close>

datatype pyval =
    PyInt int
  | PyFloat real
  | PyNaN
  | PyBits bvec
  | PyReals vec
  | PyRealMat "real list list"
  | PyShape "nat list"

datatype py_output =
    Print string "pyval list"
  | Save string "(string \<times> pyval) list"
  | Plt_figure
  | Plt_grid bool
  | Plt_semilogy vec vec
  | Plt_xlabel string
  | Plt_ylabel string
  | Plt_legend "string list"
  | Plt_show
  | Print_object pyval

datatype py_error = NameError | ZeroDivisionError

subsection \<open>The BICM-OFDM notebook\<close>

text \<open>
  Cell 2, the simulation parameters.
\<close>

definition modulation_order :: nat where
  "modulation_order = 1"

definition nrof_subcarriers :: nat where
  "nrof_subcarriers = 256"

definition ofdm_nrof_transmit_bits :: nat where
  "ofdm_nrof_transmit_bits = nrof_subcarriers * modulation_order"

definition nrof_information_bits :: nat where
  "nrof_information_bits = 80"

definition ofdm_nrof_channel_use :: nat where
  "ofdm_nrof_channel_use = 100000"

text \<open>
  Cells 3 and 4: the generator is reset with seed 42, then a block of random bits is
  encoded once to find out how long a coded block is. The result is the block length and
  the generator state after the draw.
\<close>

definition ofdm_setup :: "('s, 'e, 'f) itpp \<Rightarrow> nat \<times> 's" where
  "ofdm_setup lib =
     (let s3 = RNG_reset lib 42;
          (dummy_bits, s4) = randb lib (int nrof_information_bits) s3;
          dummy = encode_tail lib conv_code dummy_bits
      in (length dummy, s4))"

text \<open>
  Cell 5 picks the modulator from the modulation order. The last branch only prints a
  message and binds no modulator, so the first use of the name would raise \<open>NameError\<close>:
  it is \<open>None\<close> here.
\<close>

definition ofdm_modulator :: "modulator option" where
  "ofdm_modulator =
     (if modulation_order = 1 then Some BPSK_c
      else if modulation_order \<in> set [2, 4, 6, 8] then Some (QAM (2 ^ modulation_order))
      else None)"

text \<open>
  Cell 6: a tapped-delay-line channel with the ITU Vehicular A profile generates one
  impulse response per channel use; its frequency response on the subcarriers is
  computed once, before the loop.
\<close>

definition ofdm_channel :: tdl_channel where
  "ofdm_channel =
     \<lparr>channel_model = ITU_Vehicular_A, sampling_time = 1 / 1000000, norm_doppler = 1 / 100\<rparr>"

definition channel_frequency_response :: "('s, 'e, 'f) itpp \<Rightarrow> 's \<Rightarrow> cmat \<times> 's" where
  "channel_frequency_response lib s =
     (let (channel_impulse_response, s') = generate lib ofdm_channel ofdm_nrof_channel_use s
      in (calc_frequency_response lib ofdm_channel channel_impulse_response nrof_subcarriers, s'))"

text \<open>
  Cell 8, the simulation loop, stage by stage as the cell's comments divide it.
  (\<open>soft_values = itpp.vec(nrof_coded_bits)\<close> is allocated before the loop and never used.)
  Transmitter: the information bits are encoded, the coded block is cut to the number of
  transmit bits when it is longer, modulated, and loaded onto the subcarriers by the
  inverse FFT.
\<close>

definition ofdm_noise_variance :: real where
  "ofdm_noise_variance = 2 / 100"

definition ofdm_transmit_bits :: "bvec \<Rightarrow> bvec" where
  "ofdm_transmit_bits code_bits =
     (if length code_bits > ofdm_nrof_transmit_bits then left code_bits ofdm_nrof_transmit_bits
      else code_bits)"

definition ofdm_symbols :: "('s, 'e, 'f) itpp \<Rightarrow> modulator \<Rightarrow> bvec \<Rightarrow> cvec" where
  "ofdm_symbols lib md information_bits =
     (let code_bits = encode_tail lib conv_code information_bits;
          transmit_bits = ofdm_transmit_bits code_bits;
          modulated_symbols = modulate_bits lib md transmit_bits
      in ifft lib modulated_symbols nrof_subcarriers)"

text \<open>
  Channel: the symbols are multiplied by the channel coefficients of this channel use and
  white Gaussian noise is added.
\<close>

definition ofdm_received_symbols ::
  "('s, 'e, 'f) itpp \<Rightarrow> cvec \<Rightarrow> cvec \<Rightarrow> 's \<Rightarrow> cvec \<times> 's" where
  "ofdm_received_symbols lib channel_coefficents symbols s =
     (let (n, s') = randn_c lib nrof_subcarriers s;
          noise = scale_cvec (0.5 * sqrt ofdm_noise_variance) n
      in (add_cvec (elem_mult symbols channel_coefficents) noise, s'))"

text \<open>
  Receiver: FFT, soft demodulation, and the zero padding before the decoder. The result
  is the vector the cell passes to \<open>conv_code.decode_tail\<close>.
\<close>

definition demodulated_soft_values ::
  "('s, 'e, 'f) itpp \<Rightarrow> modulator \<Rightarrow> nat \<Rightarrow> cvec \<Rightarrow> cvec \<Rightarrow> vec" where
  "demodulated_soft_values lib md nrof_coded_bits received_symbols channel_coefficents =
     (let demultiplexed_symbols = fft lib received_symbols nrof_subcarriers;
          soft = demodulate_soft_bits lib md demultiplexed_symbols channel_coefficents
                   ofdm_noise_variance LOGMAP
      in if nrof_coded_bits > ofdm_nrof_transmit_bits
         then ins soft ofdm_nrof_transmit_bits (zeros (nrof_coded_bits - ofdm_nrof_transmit_bits))
         else soft)"

text \<open>
  One pass of the loop, for channel use \<open>i\<close>: the state is the \<open>success\<close> vector and the
  generator.
\<close>

definition ofdm_channel_use ::
  "('s, 'e, 'f) itpp \<Rightarrow> modulator \<Rightarrow> nat \<Rightarrow> cmat \<Rightarrow> nat \<Rightarrow> bvec \<times> 's \<Rightarrow> bvec \<times> 's" where
  "ofdm_channel_use lib md nrof_coded_bits H i st =
     (let (success, s) = st;
          (information_bits, s1) = randb lib (int nrof_information_bits) s;
          symbols = ofdm_symbols lib md information_bits;
          channel_coefficents = get_col H i;
          (received_symbols, s2) = ofdm_received_symbols lib channel_coefficents symbols s1;
          soft = demodulated_soft_values lib md nrof_coded_bits received_symbols
                   channel_coefficents;
          decoded_bits = decode_tail lib conv_code soft
      in (success[i := (information_bits = decoded_bits)], s2))"

definition ofdm_simulation ::
  "('s, 'e, 'f) itpp \<Rightarrow> modulator \<Rightarrow> nat \<Rightarrow> cmat \<Rightarrow> 's \<Rightarrow> bvec \<times> 's" where
  "ofdm_simulation lib md nrof_coded_bits H s =
     fold (ofdm_channel_use lib md nrof_coded_bits H) [0..<ofdm_nrof_channel_use]
       (bvec_new lib ofdm_nrof_channel_use, s)"

text \<open>
  Cells 6 and 8 together: the channel matrix and the success vector of a run.
\<close>

definition ofdm_run :: "('s, 'e, 'f) itpp \<Rightarrow> modulator \<Rightarrow> cmat \<times> bvec" where
  "ofdm_run lib md =
     (let (nrof_coded_bits, s4) = ofdm_setup lib;
          (H, s6) = channel_frequency_response lib s4;
          (success, s8) = ofdm_simulation lib md nrof_coded_bits H s6
      in (H, success))"

text \<open>
  Cell 9: \<open>error_rate = 1.0 - np.mean(np.array(success))\<close>. The mean of an empty array is
  \<open>nan\<close>, here \<open>None\<close>.
\<close>

definition ofdm_error_rate :: "bvec \<Rightarrow> real option" where
  "ofdm_error_rate success =
     (if success = [] then None
      else Some (1 - (\<Sum>b\<leftarrow>success. of_bool b) / real (length success)))"

definition py_float :: "real option \<Rightarrow> pyval" where
  "py_float x = (case x of None \<Rightarrow> PyNaN | Some r \<Rightarrow> PyFloat r)"

definition shape :: "'a list list \<Rightarrow> nat list" where
  "shape m = [case m of [] \<Rightarrow> 0 | col # _ \<Rightarrow> length col, length m]"

text \<open>
  The whole notebook, cell by cell. \<open>s0\<close> is the state of the generator when the first cell
  runs; the notebook resets the generator before it draws anything. Cell 4 divides by the
  coded block length, which raises when that is zero. Cell 12 loads the saved file back
  and prints the shapes of its two arrays: they are the shapes of what cell 10 saved.
\<close>

definition ofdm_notebook :: "('s, 'e, 'f) itpp \<Rightarrow> 's \<Rightarrow> py_error + py_output list" where
  "ofdm_notebook lib s0 =
     (let out2 = [Print ''Transmitted bits per channel use: %d''
                    [PyInt (int ofdm_nrof_transmit_bits)]];
          nrof_coded_bits = fst (ofdm_setup lib)
      in if nrof_coded_bits = 0 then Inl ZeroDivisionError
         else
           (let out4 = [Print ''Nominal channel code rate: %f''
                          [PyFloat (real nrof_information_bits / real nrof_coded_bits)],
                        Print ''Transmitted channel code rate: %f''
                          [PyFloat (real nrof_information_bits / real ofdm_nrof_transmit_bits)]]
            in case ofdm_modulator of
                 None \<Rightarrow> Inl NameError
               | Some md \<Rightarrow>
                   (let (H, success) = ofdm_run lib md;
                        out8 = [Print ''Done!'' []];
                        error_rate = ofdm_error_rate success;
                        out9 = [Print ''Error rate: %f'' [py_float error_rate]];
                        channel_magnitude = map (map cmod) H;
                        transmission_success = success;
                        out10 = [Save ''datafile.npy''
                                   [(''channel_magnitude'', PyRealMat channel_magnitude),
                                    (''transmission_success'', PyBits transmission_success)]];
                        out12 = [Print_object (PyShape (shape channel_magnitude)),
                                 Print_object (PyShape [length transmission_success])]
                    in Inr (out2 @ out4 @ out8 @ out9 @ out10 @ out12))))"

subsection \<open>The convolutional-code notebook\<close>

text \<open>
  Cell 4, the simulation parameters. \<open>EbN0_dB = itpp.vec('-5:0.5:5')\<close> is the 21 values
  from -5 to 5 in steps of 0.5. (\<open>energy_per_bit\<close> is computed there and never used.)
\<close>

definition convcode_EbN0_dB :: vec where
  "convcode_EbN0_dB = map (\<lambda>k. - 5 + real k / 2) [0..<21]"

definition convcode_nrof_bits :: nat where
  "convcode_nrof_bits = 10000"

definition max_errors :: int where
  "max_errors = 100"

definition max_iterations :: nat where
  "max_iterations = 10"

text \<open>
  Cell 5. One pass of the inner loop at point \<open>p\<close>: random bits are encoded, BPSK
  modulated, sent through the AWGN channel and decoded; the counter compares the decoded
  with the sent bits and its error rate is stored in \<open>ber[p]\<close>. The state is the \<open>ber\<close>
  vector, the counter and the generator.
\<close>

definition convcode_iteration ::
  "('s, 'e, 'f) itpp \<Rightarrow> real \<Rightarrow> nat \<Rightarrow> vec \<times> 'e \<times> 's \<Rightarrow> vec \<times> 'e \<times> 's" where
  "convcode_iteration lib noise_variance p st =
     (let (ber, berc, s) = st;
          (uncoded_bits, s1) = randb lib (int convcode_nrof_bits) s;
          coded_bits = encode lib conv_code uncoded_bits;
          transmitted_symbols = BPSK_modulate_bits lib coded_bits;
          (received_symbols, s2) = AWGN_Channel lib (noise_variance / 2) transmitted_symbols s1;
          decoded_bits = decode lib conv_code received_symbols;
          berc' = BERC_count lib uncoded_bits decoded_bits berc
      in (ber[p := BERC_get_errorrate lib berc'], berc', s2))"

text \<open>
  The inner loop \<open>for i in range(max_iterations)\<close> with its \<open>break\<close>: \<open>n\<close> counts the passes
  that are left.
\<close>

fun convcode_iterations ::
  "('s, 'e, 'f) itpp \<Rightarrow> real \<Rightarrow> nat \<Rightarrow> nat \<Rightarrow> (vec \<times> 'e \<times> 's) \<times> py_output list
     \<Rightarrow> (vec \<times> 'e \<times> 's) \<times> py_output list" where
  "convcode_iterations lib noise_variance p 0 sto = sto"
| "convcode_iterations lib noise_variance p (Suc n) (st, out) =
     (let st' = convcode_iteration lib noise_variance p st;
          berc' = fst (snd st')
      in if BERC_get_errors lib berc' > real_of_int max_errors
         then (st', out @ [Print ''Breaking on point %d with %d errors''
                             [PyInt (int p + 1), PyFloat (BERC_get_errors lib berc')]])
         else convcode_iterations lib noise_variance p n (st', out))"

definition convcode_point ::
  "('s, 'e, 'f) itpp \<Rightarrow> nat \<Rightarrow> (vec \<times> 'e \<times> 's) \<times> py_output list
     \<Rightarrow> (vec \<times> 'e \<times> 's) \<times> py_output list" where
  "convcode_point lib p sto =
     (let ((ber, berc, s), out) = sto;
          out1 = out @ [Print ''Now simulating point %d out of %d with EbN0_dB = %.2f''
                          [PyInt (int p + 1), PyInt (int (length convcode_EbN0_dB)),
                           PyFloat (convcode_EbN0_dB ! p)]];
          berc1 = BERC_clear lib berc;
          noise_variance = 10 powr (- 0.1 * convcode_EbN0_dB ! p)
      in convcode_iterations lib noise_variance p max_iterations ((ber, berc1, s), out1))"

text \<open>
  Cells 3 to 5: the counter is created, \<open>ber\<close> is allocated and cleared, the generator is
  reset with seed 42, and the outer loop runs over the points.
\<close>

definition convcode_simulation ::
  "('s, 'e, 'f) itpp \<Rightarrow> (vec \<times> 'e \<times> 's) \<times> py_output list" where
  "convcode_simulation lib =
     fold (convcode_point lib) [0..<length convcode_EbN0_dB]
       ((clear (vec_new lib (length convcode_EbN0_dB)), BERC lib 0 0 0, RNG_reset lib 42), [])"

text \<open>
  The whole notebook: the simulation, then the plot of cell 8.
\<close>

definition convcode_notebook :: "('s, 'e, 'f) itpp \<Rightarrow> 's \<Rightarrow> py_output list" where
  "convcode_notebook lib s0 =
     (let ((ber, berc, s), out) = convcode_simulation lib
      in out @ [Plt_figure, Plt_grid True, Plt_semilogy convcode_EbN0_dB ber,
                Plt_xlabel ''EbN0_dB'', Plt_ylabel ''BER'', Plt_show])"

subsection \<open>The MIMO notebook\<close>

text \<open>
  Cells 2 to 4 fix the packet length, encode one random packet to measure the coded
  block length, and draw the interleaver sequence that the bit interleaver and the
  integer interleaver share. Everything later depends on these two values.
\<close>

definition nrof_uncoded_bits :: nat where
  "nrof_uncoded_bits = 1000"

record mimo_setup =
  nrof_coded_bits :: nat
  interleaver_sequence :: ivec

definition mimo_cells_2_to_4 :: "('s, 'e, 'f) itpp \<Rightarrow> 's \<Rightarrow> mimo_setup \<times> 's" where
  "mimo_cells_2_to_4 lib s0 =
     (let (dummy_bits, s2) = randb lib (int nrof_uncoded_bits) s0;
          dummy = encode_tail lib conv_code dummy_bits;
          (sequence, s4) = randomize_interleaver_sequence lib (length dummy) s2
      in (\<lparr>nrof_coded_bits = length dummy, interleaver_sequence = sequence\<rparr>, s4))"

definition rate :: "mimo_setup \<Rightarrow> real" where
  "rate setup = real nrof_uncoded_bits / real (nrof_coded_bits setup)"

text \<open>
  Cell 3, the modulator and the block geometry. \<open>int(a / b)\<close> on positive integers is the
  integer quotient.
\<close>

definition constellation_index :: nat where
  "constellation_index = 1"

definition nrof_transmit_antenna :: nat where
  "nrof_transmit_antenna = 4"

definition nrof_receive_antenna :: nat where
  "nrof_receive_antenna = 4"

definition nrof_coherent_samples :: nat where
  "nrof_coherent_samples = 10"

definition nrof_bits_per_channel_use :: nat where
  "nrof_bits_per_channel_use = 2 * constellation_index * nrof_transmit_antenna"

definition mimo_nrof_channel_use :: "mimo_setup \<Rightarrow> nat" where
  "mimo_nrof_channel_use setup = nrof_coded_bits setup div nrof_bits_per_channel_use"

definition mimo_nrof_transmit_bits :: "mimo_setup \<Rightarrow> nat" where
  "mimo_nrof_transmit_bits setup = nrof_bits_per_channel_use * mimo_nrof_channel_use setup"

definition mimo_modulator :: nd_uqam where
  "mimo_modulator = ND_UQAM nrof_transmit_antenna (2 ^ (2 * constellation_index))"

text \<open>
  Cell 5, the simulation control parameters. \<open>EbN0_db = itpp.vec('-10:1:10')\<close> is the 21
  integers from -10 to 10. (\<open>ber_min\<close> and \<open>fer_min\<close> are set there and never used.)
\<close>

definition mimo_EbN0_db :: vec where
  "mimo_EbN0_db = map real_of_int [- 10..10]"

definition nrof_max_bits :: int where
  "nrof_max_bits = 50000"

definition nrof_bers :: int where
  "nrof_bers = (if nrof_coherent_samples = 1 then 2000 else - 1)"

definition nrof_fers :: int where
  "nrof_fers = (if nrof_coherent_samples = 1 then - 1 else 200)"

definition mimo_cell_5 :: "py_output list" where
  "mimo_cell_5 =
     [Print ''Initializing %d transmit antennas, %d receive antennas, %d-PAM per dimension, %d coherent samples''
        [PyInt (int nrof_transmit_antenna), PyInt (int nrof_receive_antenna),
         PyFloat (2 ^ constellation_index), PyInt (int nrof_coherent_samples)]]
     @ (if (2::real) ^ nrof_bits_per_channel_use > 256
        then [Print ''WARNING: ML decoder too complex, try approximate approach'' []] else [])
     @ (if nrof_transmit_antenna > nrof_receive_antenna
        then [Print ''WARNING: Undetermined system, do not use ZF decoder '' []] else [])"

text \<open>
  Cell 6, the variables the loops write. The state of the \<open>while\<close> loop is a record of them,
  with the generator and the bit count.
\<close>

record ('s, 'e, 'f) mimo_state =
  rng :: 's
  received_symbols :: "cvec list"
  channel_coefficients :: "cmat list"
  uncoded_bit_error_counter :: 'e
  coded_bit_error_counter :: 'e
  frame_error_counter :: 'f
  llr_in :: ivec
  llr_priori :: ivec
  llr_posteriori :: ivec
  nrof_bits :: int

definition nrof_channel_samples :: "mimo_setup \<Rightarrow> nat" where
  "nrof_channel_samples setup = mimo_nrof_channel_use setup div nrof_coherent_samples + 1"

definition mimo_cell_6 :: "('s, 'e, 'f) itpp \<Rightarrow> mimo_setup \<Rightarrow> ('s, 'e, 'f) mimo_state" where
  "mimo_cell_6 lib setup =
     \<lparr>rng = RNG_reset lib 42,
      received_symbols = replicate (mimo_nrof_channel_use setup) [],
      channel_coefficients = replicate (nrof_channel_samples setup) [],
      uncoded_bit_error_counter = BERC lib 0 0 0,
      coded_bit_error_counter = BERC lib 0 0 0,
      frame_error_counter = BLERC lib (int nrof_uncoded_bits),
      llr_in = ivec_new lib (nrof_coded_bits setup),
      llr_priori = ivec_new lib nrof_bits_per_channel_use,
      llr_posteriori = ivec_new lib nrof_bits_per_channel_use,
      nrof_bits = 0\<rparr>"

text \<open>
  Cell 7. The first inner loop, for channel use \<open>k\<close>: a new channel matrix is drawn at the
  start of every coherence interval, the bits of this channel use are modulated, and the
  received vector is the channel matrix times the symbols plus noise.
\<close>

definition energy_per_complex_symbol :: "mimo_setup \<Rightarrow> real" where
  "energy_per_complex_symbol setup = rate setup * 2 * real constellation_index * 1"

definition mimo_transmit ::
  "('s, 'e, 'f) itpp \<Rightarrow> mimo_setup \<Rightarrow> real \<Rightarrow> bvec \<Rightarrow> nat
     \<Rightarrow> cmat list \<times> cvec list \<times> 's \<Rightarrow> cmat list \<times> cvec list \<times> 's" where
  "mimo_transmit lib setup noise_variance transmit_bits k st =
     (let (coefficients, received, s) = st;
          channel_sample_index = k div nrof_coherent_samples;
          (coefficients', s1) =
            (if k mod nrof_coherent_samples = 0
             then (let (h, s') = randn_c_mat lib nrof_receive_antenna nrof_transmit_antenna s
                   in (coefficients[channel_sample_index :=
                         scale_cmat (sqrt (energy_per_complex_symbol setup)) h], s'))
             else (coefficients, s));
          bits = mid transmit_bits (k * nrof_bits_per_channel_use) nrof_bits_per_channel_use;
          sym = ND_modulate_bits lib mimo_modulator bits;
          (n, s2) = randn_c lib nrof_receive_antenna s1;
          noise = scale_cvec (sqrt noise_variance) n
      in (coefficients',
          received[k := add_cvec (mult_cmat_cvec (coefficients' ! channel_sample_index) sym) noise],
          s2))"

text \<open>
  The second inner loop, for channel use \<open>k\<close>: the soft demodulator writes the a posteriori
  LLRs of this channel use, and the notebook copies them into \<open>llr_in\<close> at the offset of
  the channel use.
\<close>

definition mimo_demodulate ::
  "('s, 'e, 'f) itpp \<Rightarrow> real \<Rightarrow> cvec list \<Rightarrow> cmat list \<Rightarrow> ivec \<Rightarrow> nat
     \<Rightarrow> ivec \<times> ivec \<Rightarrow> ivec \<times> ivec" where
  "mimo_demodulate lib noise_variance received coefficients priori k st =
     (let (l_in, l_posteriori) = st;
          channel_sample_index = k div nrof_coherent_samples;
          l_posteriori' = ND_demodulate_soft_bits lib mimo_modulator (received ! k)
                            (coefficients ! channel_sample_index) noise_variance priori
                            FULL_ENUM_LOGMAP
      in (set_subvector l_in (k * nrof_bits_per_channel_use) l_posteriori', l_posteriori'))"

text \<open>
  After the loop the LLRs are deinterleaved, cut to the coded block length and converted
  to reals: \<open>llr\<close> is the vector the cell passes to \<open>conv_code.decode_tail\<close>.
\<close>

definition llr :: "('s, 'e, 'f) itpp \<Rightarrow> mimo_setup \<Rightarrow> ivec \<Rightarrow> vec" where
  "llr lib setup l_in =
     (let llr_deinterleaved = deinterleave lib (interleaver_sequence setup) l_in
      in to_double lib mimo_modulator (left llr_deinterleaved (nrof_coded_bits setup)))"

text \<open>
  One pass of the \<open>while\<close> body.
\<close>

definition mimo_pass ::
  "('s, 'e, 'f) itpp \<Rightarrow> mimo_setup \<Rightarrow> real \<Rightarrow> ('s, 'e, 'f) mimo_state
     \<Rightarrow> ('s, 'e, 'f) mimo_state" where
  "mimo_pass lib setup noise_variance st =
     (let (information_bits, s1) = randb lib (int nrof_uncoded_bits) (rng st);
          coded = encode_tail lib conv_code information_bits;
          (padding, s2) = randb lib (int (mimo_nrof_transmit_bits setup)
                                       - int (nrof_coded_bits setup)) s1;
          transmit_bits = interleave lib (interleaver_sequence setup) (concat_vec coded padding);
          (coefficients, received, s3) =
            fold (mimo_transmit lib setup noise_variance transmit_bits)
              [0..<mimo_nrof_channel_use setup]
              (channel_coefficients st, received_symbols st, s2);
          priori = clear (llr_priori st);
          (l_in, l_posteriori) =
            fold (mimo_demodulate lib noise_variance received coefficients priori)
              [0..<mimo_nrof_channel_use setup]
              (clear (llr_in st), clear (llr_posteriori st));
          decoded_bits = decode_tail lib conv_code (llr lib setup l_in)
      in \<lparr>rng = s3,
          received_symbols = received,
          channel_coefficients = coefficients,
          uncoded_bit_error_counter =
            BERC_count lib transmit_bits (less_zero l_in) (uncoded_bit_error_counter st),
          coded_bit_error_counter =
            BERC_count lib information_bits decoded_bits (coded_bit_error_counter st),
          frame_error_counter =
            BLERC_count lib information_bits decoded_bits (frame_error_counter st),
          llr_in = l_in,
          llr_priori = priori,
          llr_posteriori = l_posteriori,
          nrof_bits = nrof_bits st + int nrof_uncoded_bits\<rparr>)"

text \<open>
  The two \<open>break\<close> tests at the end of the body, and the \<open>while\<close> loop itself.
\<close>

definition mimo_break :: "('s, 'e, 'f) itpp \<Rightarrow> ('s, 'e, 'f) mimo_state \<Rightarrow> bool" where
  "mimo_break lib st =
     ((nrof_bers > 0
         \<and> BERC_get_errors lib (coded_bit_error_counter st) > real_of_int nrof_bers)
      \<or> (nrof_fers > 0
         \<and> BLERC_get_errors lib (frame_error_counter st) > real_of_int nrof_fers))"

function mimo_while ::
  "('s, 'e, 'f) itpp \<Rightarrow> mimo_setup \<Rightarrow> real \<Rightarrow> ('s, 'e, 'f) mimo_state
     \<Rightarrow> ('s, 'e, 'f) mimo_state" where
  "mimo_while lib setup noise_variance st =
     (if nrof_bits st < nrof_max_bits
      then (let st' = mimo_pass lib setup noise_variance st
            in if mimo_break lib st' then st' else mimo_while lib setup noise_variance st')
      else st)"
  by pat_completeness auto
termination
  by (relation "measure (\<lambda>(lib, setup, noise_variance, st). nat (nrof_max_bits - nrof_bits st))")
     (auto simp: mimo_pass_def nrof_uncoded_bits_def Let_def split: prod.splits)

declare mimo_while.simps [simp del]

text \<open>
  One SNR point: the counters are cleared, the loop runs, and the three error rates are
  appended to their lists and printed. The state of the outer loop is the loop state, the
  three lists and the output.
\<close>

definition mimo_point ::
  "('s, 'e, 'f) itpp \<Rightarrow> mimo_setup \<Rightarrow> nat
     \<Rightarrow> ('s, 'e, 'f) mimo_state \<times> (vec \<times> vec \<times> vec) \<times> py_output list
     \<Rightarrow> ('s, 'e, 'f) mimo_state \<times> (vec \<times> vec \<times> vec) \<times> py_output list" where
  "mimo_point lib setup snr_index sto =
     (let (st, (uncoded_bit_error_rate, coded_bit_error_rate, frame_error_rate), out) = sto;
          st0 = st\<lparr>uncoded_bit_error_counter := BERC_clear lib (uncoded_bit_error_counter st),
                   coded_bit_error_counter := BERC_clear lib (coded_bit_error_counter st),
                   frame_error_counter := BLERC_clear lib (frame_error_counter st),
                   nrof_bits := 0\<rparr>;
          noise_variance = 10 powr (- 0.1 * mimo_EbN0_db ! snr_index);
          st1 = mimo_while lib setup noise_variance st0;
          u = BERC_get_errorrate lib (uncoded_bit_error_counter st1);
          c = BERC_get_errorrate lib (coded_bit_error_counter st1);
          f = BLERC_get_errorrate lib (frame_error_counter st1)
      in (st1,
          (uncoded_bit_error_rate @ [u], coded_bit_error_rate @ [c], frame_error_rate @ [f]),
          out @ [Print ''Eb/N0: %0.2f dB, simulated bits: %d, Uncoded BER: %0.2f, Coded BER: %0.2f, Coded FER: %0.2f''
                   [PyFloat (mimo_EbN0_db ! snr_index), PyInt (nrof_bits st1),
                    PyFloat u, PyFloat c, PyFloat f]]))"

definition mimo_simulation ::
  "('s, 'e, 'f) itpp \<Rightarrow> mimo_setup
     \<Rightarrow> ('s, 'e, 'f) mimo_state \<times> (vec \<times> vec \<times> vec) \<times> py_output list" where
  "mimo_simulation lib setup =
     fold (mimo_point lib setup) [0..<length mimo_EbN0_db]
       (mimo_cell_6 lib setup, ([], [], []), mimo_cell_5)"

text \<open>
  The whole notebook. \<open>s0\<close> is the state of the generator when the first cell runs. Cell 2
  divides by the coded block length, which raises when that is zero.
\<close>

definition mimo_notebook :: "('s, 'e, 'f) itpp \<Rightarrow> 's \<Rightarrow> py_error + py_output list" where
  "mimo_notebook lib s0 =
     (let setup = fst (mimo_cells_2_to_4 lib s0)
      in if nrof_coded_bits setup = 0 then Inl ZeroDivisionError
         else
           (let (st, (uncoded_bit_error_rate, coded_bit_error_rate, frame_error_rate), out) =
                  mimo_simulation lib setup
            in Inr (out @ [Plt_figure,
                           Plt_semilogy mimo_EbN0_db uncoded_bit_error_rate,
                           Plt_semilogy mimo_EbN0_db coded_bit_error_rate,
                           Plt_semilogy mimo_EbN0_db frame_error_rate,
                           Plt_legend [''Uncoded BER'', ''Coded BER'', ''Coded FER''],
                           Plt_show])))"

subsection \<open>What is assumed of the itpp routines\<close>

text \<open>
  Where a property of a notebook rests on how long the vectors are that the routines
  return, the lengths are a hypothesis on \<open>lib\<close>, taken from the IT++ documentation:
  \<open>randb(n)\<close> returns \<open>n\<close> bits; \<open>encode_tail\<close> of the rate 1/3 code with constraint length 7
  appends 6 tail bits and returns 3 coded bits per bit (the OFDM notebook's own output,
  a nominal rate of 0.310078 = 80/258, agrees); an \<open>N\<close>-point FFT returns \<open>N\<close> values; the
  BPSK soft demodulator returns one soft value per symbol.
\<close>

definition itpp_block_lengths :: "('s, 'e, 'f) itpp \<Rightarrow> bool" where
  "itpp_block_lengths lib \<longleftrightarrow>
     (\<forall>n s. length (fst (randb lib (int n) s)) = n)
     \<and> (\<forall>b. length (encode_tail lib conv_code b) = 3 * (length b + 6))
     \<and> (\<forall>x n. length (fft lib x n) = n)
     \<and> (\<forall>x c v m. length (demodulate_soft_bits lib BPSK_c x c v m) = length x)"

subsection \<open>A stand-in for the itpp module\<close>

text \<open>
  \<open>sim_itpp\<close> is a small instance of the parameter, used only to show that the hypotheses
  of the theorems can be met and to run single stages of the notebooks on concrete values.
  It is not a model of IT++: it keeps the lengths of the vectors and leaves the signal
  processing out. The code repeats each bit once per generator and the decoder reads the
  sign of the first copy, the modulators map bits to \<open>\<plusminus>1\<close>, the transforms pad or cut to
  \<open>N\<close> values, the channels add nothing, the generator state is a counter, and an
  interleaver sequence is a rotation by the generator state.
\<close>

definition sim_itpp :: "(nat, nat \<times> nat, nat \<times> nat) itpp" where
  "sim_itpp =
     \<lparr>RNG_reset = (\<lambda>seed. seed),
      randb = (\<lambda>n s. (map (\<lambda>i. odd (s + i)) [0..<nat n], s + nat n)),
      randn_c = (\<lambda>n s. (replicate n (of_nat s), Suc s)),
      randn_c_mat = (\<lambda>rows cols s. (replicate cols (replicate rows (of_nat s)), Suc s)),
      bvec_new = (\<lambda>n. replicate n False),
      vec_new = (\<lambda>n. replicate n 0),
      ivec_new = (\<lambda>n. replicate n 0),
      encode_tail = (\<lambda>cc b. concat (map (replicate (length (generator_polynomials cc)))
                                     (b @ replicate (nat (constraint_length cc - 1)) False))),
      decode_tail = (\<lambda>cc v. map (\<lambda>k. v ! (k * length (generator_polynomials cc)) < 0)
                               [0..<length v div length (generator_polynomials cc)
                                     - nat (constraint_length cc - 1)]),
      encode = (\<lambda>cc b. concat (map (replicate (length (generator_polynomials cc))) b)),
      decode = (\<lambda>cc v. map (\<lambda>k. v ! (k * length (generator_polynomials cc)) < 0)
                          [0..<length v div length (generator_polynomials cc)]),
      modulate_bits = (\<lambda>md b. map (\<lambda>x. if x then - 1 else 1) b),
      demodulate_soft_bits = (\<lambda>md x c v m. map Re x),
      BPSK_modulate_bits = (\<lambda>b. map (\<lambda>x. if x then - 1 else 1) b),
      ND_modulate_bits = (\<lambda>md b. map (\<lambda>i. Complex (if b ! (2 * i) then - 1 else 1)
                                                  (if b ! (2 * i + 1) then - 1 else 1))
                                    [0..<length b div 2]),
      ND_demodulate_soft_bits = (\<lambda>md y h v priori m. map (\<lambda>_. 0) priori),
      to_double = (\<lambda>md v. map real_of_int v),
      ifft = (\<lambda>x n. take n (x @ replicate n 0)),
      fft = (\<lambda>x n. take n (x @ replicate n 0)),
      generate = (\<lambda>ch n s. (replicate n [of_nat s], Suc s)),
      calc_frequency_response = (\<lambda>ch h n. map (\<lambda>col. replicate n (sum_list col)) h),
      AWGN_Channel = (\<lambda>v x s. (x, Suc s)),
      randomize_interleaver_sequence =
        (\<lambda>n s. (map (\<lambda>i. int ((i + s) mod n)) [0..<n], Suc s)),
      interleave = (\<lambda>sequence b. map (\<lambda>j. b ! nat j) sequence),
      deinterleave = (\<lambda>sequence v. map (\<lambda>j. v ! nat j) sequence),
      BERC = (\<lambda>indelay inignorefirst inignorelast. (0, 0)),
      BERC_clear = (\<lambda>c. (0, 0)),
      BERC_count = (\<lambda>a b c. (fst c + length (filter (\<lambda>(x, y). x \<noteq> y) (zip a b)),
                               snd c + min (length a) (length b))),
      BERC_get_errorrate = (\<lambda>c. real (fst c) / real (snd c)),
      BERC_get_errors = (\<lambda>c. real (fst c)),
      BLERC = (\<lambda>blocksize. (0, 0)),
      BLERC_clear = (\<lambda>c. (0, 0)),
      BLERC_count = (\<lambda>a b c. (fst c + (if a = b then 0 else 1), snd c + 1)),
      BLERC_get_errorrate = (\<lambda>c. real (fst c) / real (snd c)),
      BLERC_get_errors = (\<lambda>c. real (fst c))\<rparr>"


subsection \<open>The transmit chain of a bit-interleaved scheme\<close>

text \<open>
  For comparison with \<open>ofdm_symbols\<close>, and not from the source: the transmit chain as the
  sentence on bit-interleaved coded modulation over OFDM words it, where the coded bits
  pass through a bit interleaver before they are modulated and loaded onto the
  subcarriers by the inverse FFT.
\<close>

definition interleaved_ofdm_symbols ::
  "('s, 'e, 'f) itpp \<Rightarrow> modulator \<Rightarrow> ivec \<Rightarrow> bvec \<Rightarrow> cvec" where
  "interleaved_ofdm_symbols lib md sequence information_bits =
     (let code_bits = encode_tail lib conv_code information_bits;
          interleaved_bits = interleave lib sequence code_bits;
          transmit_bits = ofdm_transmit_bits interleaved_bits;
          modulated_symbols = modulate_bits lib md transmit_bits
      in ifft lib modulated_symbols nrof_subcarriers)"

subsection \<open>The makerules fragment\<close>

text \<open>
  A make variable holds a string; one that was never set expands to the empty string.
  The right-hand side of an assignment is text with references \<open>$(NAME)\<close> in it, and \<open>:=\<close>
  expands it once, when the line is read, in the variables as they are then.
\<close>

type_synonym make_env = "string \<Rightarrow> string"

datatype piece = Text string | Ref string

fun expand_piece :: "make_env \<Rightarrow> piece \<Rightarrow> string" where
  "expand_piece env (Text t) = t"
| "expand_piece env (Ref v) = env v"

definition expand :: "make_env \<Rightarrow> piece list \<Rightarrow> string" where
  "expand env rhs = concat (map (expand_piece env) rhs)"

definition assign :: "string \<Rightarrow> piece list \<Rightarrow> make_env \<Rightarrow> make_env" where
  "assign v rhs env = env(v := expand env rhs)"

text \<open>
  Lines 15 to 19: when \<open>FLAGS_FAST_MATH\<close> is \<open>disable\<close>, \<open>FLAGS_COMMON_MATH\<close> is set to the
  empty string; the assignment of the other branch is commented out, so the variable
  keeps what it had.
\<close>

definition fast_math :: "make_env \<Rightarrow> make_env" where
  "fast_math env =
     (if expand env [Ref ''FLAGS_FAST_MATH''] = ''disable''
      then assign ''FLAGS_COMMON_MATH'' [] env else env)"

text \<open>
  The assignments of lines 21 to 58, in the order of the file. Line 36 and the lines
  after line 58 are left out: they set \<open>LOCAL_SOURCE_SUBDIRS\<close>, \<open>PLAIN_LIB_PATHS\<close>, \<open>LIB_FILES\<close>,
  \<open>INCLUDE_PATH\<close> and \<open>INCLUDE_PATH_system\<close> with make's file and text functions, and no
  line modelled here reads one of these.
\<close>

definition makerules :: "make_env \<Rightarrow> make_env" where
  "makerules env =
     (assign ''TARGET_LIB_PYTHON'' [Ref ''LOCAL_TARGET_DIR'', Text ''/'', Ref ''LOCAL_TARGET_PYTHON'']
      (assign ''TARGET_LIB_SHARED'' [Ref ''LOCAL_TARGET_DIR'', Text ''/'', Ref ''LOCAL_TARGET_SHARED'']
      (assign ''LOCAL_LIB_PYTHON'' [Ref ''LIB_BASE_NAME'']
      (assign ''LOCAL_LIB_SHARED'' [Text ''-l'', Ref ''LIB_BASE_NAME'']
      (assign ''LOCAL_LIBPATH'' [Text ''-L'', Ref ''LOCAL_TARGET_DIR'']
      (assign ''LOCAL_TARGET_DIR'' [Ref ''LOCAL_HOME'', Text ''/lib/'', Ref ''LIB_NAME'']
      (assign ''LOCAL_SOURCE_DIR'' [Ref ''LOCAL_HOME'', Text ''/src'']
      (assign ''FLAGS_PYTHON''
         [Ref ''FLAGS_COMMON'', Text '' '', Ref ''ARCH_FLAGS'',
          Text '' -shared -O3 -std=c++11 -Wall -fPIC '', Ref ''FLAGS_COMMON_MATH'',
          Text '' '', Ref ''ADDITIONAL_COMPILER_FLAGS'', Text '' '', Ref ''USER_FLAGS'']
      (fast_math env)))))))))"

text \<open>
  The flags of a variable are the words of its value: the maximal runs of characters
  other than blanks and tabs.
\<close>

definition is_blank :: "char \<Rightarrow> bool" where
  "is_blank c \<longleftrightarrow> c = CHR '' '' \<or> c = CHR 0x09"

fun split_blank :: "string \<Rightarrow> string list" where
  "split_blank [] = [[]]"
| "split_blank (c # cs) =
     (if is_blank c then [] # split_blank cs
      else (case split_blank cs of [] \<Rightarrow> [[c]] | w # ws \<Rightarrow> (c # w) # ws))"

definition make_words :: "string \<Rightarrow> string list" where
  "make_words v = filter (\<lambda>w. w \<noteq> []) (split_blank v)"

section \<open>Properties\<close>

subsection \<open>The stand-in meets what is assumed of the routines\<close>

lemma sim_randb: "randb sim_itpp n s = (map (\<lambda>i. odd (s + i)) [0..<nat n], s + nat n)"
  by (simp add: sim_itpp_def)

lemma sim_encode_tail: "length (encode_tail sim_itpp conv_code b) = 3 * (length b + 6)"
  by (simp add: sim_itpp_def conv_code_def length_concat comp_def sum_list_triv
        sum_list_replicate)

lemma sim_fft: "length (fft sim_itpp x n) = n"
  by (simp add: sim_itpp_def)

lemma sim_demodulate_soft_bits:
  "length (demodulate_soft_bits sim_itpp md x c v m) = length x"
  by (simp add: sim_itpp_def)

lemma sim_itpp_block_lengths: "itpp_block_lengths sim_itpp"
  unfolding itpp_block_lengths_def
  by (simp add: sim_randb sim_encode_tail sim_fft sim_demodulate_soft_bits)

subsection \<open>The OFDM notebook: the length of the decoder's input\<close>

lemma ofdm_modulator_eq: "ofdm_modulator = Some BPSK_c"
  by (simp add: ofdm_modulator_def modulation_order_def)

lemma ofdm_nrof_transmit_bits_eq: "ofdm_nrof_transmit_bits = 256"
  by (simp add: ofdm_nrof_transmit_bits_def nrof_subcarriers_def modulation_order_def)

lemma ofdm_setup_fst:
  "fst (ofdm_setup lib) =
     length (encode_tail lib conv_code
               (fst (randb lib (int nrof_information_bits) (RNG_reset lib 42))))"
  by (simp add: ofdm_setup_def Let_def split: prod.splits)

lemma ofdm_setup_length:
  assumes "itpp_block_lengths lib"
  shows "fst (ofdm_setup lib) = 258"
proof -
  from assms have a: "\<And>n s. length (fst (randb lib (int n) s)) = n"
    and b: "\<And>b. length (encode_tail lib conv_code b) = 3 * (length b + 6)"
    by (simp_all add: itpp_block_lengths_def)
  show ?thesis
    by (simp only: ofdm_setup_fst a b) (simp add: nrof_information_bits_def)
qed

lemma soft_length:
  assumes "itpp_block_lengths lib"
  shows "length (demodulate_soft_bits lib BPSK_c (fft lib r nrof_subcarriers) c v m)
         = ofdm_nrof_transmit_bits"
proof -
  from assms have a: "\<And>x n. length (fft lib x n) = n"
    and b: "\<And>x c v m. length (demodulate_soft_bits lib BPSK_c x c v m) = length x"
    by (simp_all add: itpp_block_lengths_def)
  show ?thesis by (simp add: a b ofdm_nrof_transmit_bits_def modulation_order_def)
qed

lemma demodulated_soft_values_length:
  assumes "itpp_block_lengths lib" and "ofdm_nrof_transmit_bits \<le> n"
  shows "length (demodulated_soft_values lib BPSK_c n r c) = n"
  using assms(2) soft_length[OF assms(1)]
  by (simp add: demodulated_soft_values_def Let_def ins_def zeros_def)

text \<open>
  C6. In the OFDM notebook, for a library with the block lengths of IT++, the vector passed
  to \<open>conv_code.decode_tail\<close> has length \<open>nrof_coded_bits\<close> in every pass of the loop, whatever
  was received: a coded block longer than \<open>nrof_transmit_bits\<close> is cut to its first
  \<open>nrof_transmit_bits\<close> bits before it is sent, and when \<open>nrof_coded_bits\<close> exceeds
  \<open>nrof_transmit_bits\<close> the demodulated soft values are followed by zeros, inserted at
  position \<open>nrof_transmit_bits\<close>, up to \<open>nrof_coded_bits\<close>.
\<close>

theorem decode_tail_input_length:
  assumes "itpp_block_lengths lib" and "ofdm_modulator = Some md"
  shows "length (demodulated_soft_values lib md (fst (ofdm_setup lib)) received coefficents)
           = fst (ofdm_setup lib)
         \<and> (length code_bits > ofdm_nrof_transmit_bits
              \<longrightarrow> ofdm_transmit_bits code_bits = take ofdm_nrof_transmit_bits code_bits)
         \<and> (fst (ofdm_setup lib) > ofdm_nrof_transmit_bits
              \<longrightarrow> demodulated_soft_values lib md (fst (ofdm_setup lib)) received coefficents
                  = demodulate_soft_bits lib md (fft lib received nrof_subcarriers)
                      coefficents ofdm_noise_variance LOGMAP
                    @ replicate (fst (ofdm_setup lib) - ofdm_nrof_transmit_bits) 0)"
proof -
  from assms(2) have md: "md = BPSK_c"
    by (simp add: ofdm_modulator_eq)
  have n: "fst (ofdm_setup lib) = 258"
    by (rule ofdm_setup_length[OF assms(1)])
  have len: "length (demodulated_soft_values lib md (fst (ofdm_setup lib)) received
                       coefficents) = fst (ofdm_setup lib)"
    unfolding md by (rule demodulated_soft_values_length[OF assms(1)])
      (simp add: n ofdm_nrof_transmit_bits_eq)
  have cut: "length code_bits > ofdm_nrof_transmit_bits
               \<longrightarrow> ofdm_transmit_bits code_bits = take ofdm_nrof_transmit_bits code_bits"
    by (simp add: ofdm_transmit_bits_def left_def)
  have pad: "demodulated_soft_values lib md (fst (ofdm_setup lib)) received coefficents
             = demodulate_soft_bits lib md (fft lib received nrof_subcarriers)
                 coefficents ofdm_noise_variance LOGMAP
               @ replicate (fst (ofdm_setup lib) - ofdm_nrof_transmit_bits) 0"
    using soft_length[OF assms(1), of received coefficents ofdm_noise_variance LOGMAP]
    by (simp add: md n demodulated_soft_values_def Let_def ins_def zeros_def
          ofdm_nrof_transmit_bits_eq)
  from len cut pad show ?thesis by simp
qed

theorem decode_tail_input_length_witness:
  "itpp_block_lengths sim_itpp \<and> ofdm_modulator = Some BPSK_c
   \<and> fst (ofdm_setup sim_itpp) = 258 \<and> ofdm_nrof_transmit_bits = 256
   \<and> length (demodulated_soft_values sim_itpp BPSK_c (fst (ofdm_setup sim_itpp)) [] []) = 258
   \<and> length (replicate 258 True) > ofdm_nrof_transmit_bits
   \<and> ofdm_transmit_bits (replicate 258 True) = replicate 256 True
   \<and> demodulated_soft_values sim_itpp BPSK_c (fst (ofdm_setup sim_itpp)) [] []
       = replicate 256 0 @ replicate 2 0"
proof -
  have n: "fst (ofdm_setup sim_itpp) = 258"
    by (rule ofdm_setup_length[OF sim_itpp_block_lengths])
  have soft: "demodulate_soft_bits sim_itpp BPSK_c (fft sim_itpp [] nrof_subcarriers) []
                ofdm_noise_variance LOGMAP = replicate 256 0"
    by (simp add: sim_itpp_def nrof_subcarriers_def map_replicate_const)
  from decode_tail_input_length[OF sim_itpp_block_lengths ofdm_modulator_eq,
      of "[]" "[]" "replicate 258 True"]
  show ?thesis
    by (simp add: sim_itpp_block_lengths ofdm_modulator_eq n ofdm_nrof_transmit_bits_eq soft)
qed

subsection \<open>The MIMO notebook: the while loop\<close>

lemma nrof_bits_mimo_pass:
  "nrof_bits (mimo_pass lib cfg nv st) = nrof_bits st + 1000"
  by (simp add: mimo_pass_def Let_def nrof_uncoded_bits_def split: prod.splits)

lemma mimo_while_stop:
  "\<not> nrof_bits st < nrof_max_bits \<Longrightarrow> mimo_while lib cfg nv st = st"
  by (subst mimo_while.simps) simp

lemma mimo_while_step:
  "nrof_bits st < nrof_max_bits \<Longrightarrow>
   mimo_while lib cfg nv st =
     (if mimo_break lib (mimo_pass lib cfg nv st) then mimo_pass lib cfg nv st
      else mimo_while lib cfg nv (mimo_pass lib cfg nv st))"
  by (subst mimo_while.simps) (simp add: Let_def)

text \<open>
  From a state that has simulated \<open>1000 * j\<close> bits, with \<open>m\<close> passes left until 50000, the
  loop is some number \<open>k \<le> m\<close> of passes of its body, and it stops before the last one only
  on a \<open>break\<close>.
\<close>

lemma mimo_while_from:
  "nrof_bits st = 1000 * int j \<Longrightarrow> j + m = 50 \<Longrightarrow>
   \<exists>k. k \<le> m
     \<and> mimo_while lib cfg nv st = (mimo_pass lib cfg nv ^^ k) st
     \<and> nrof_bits (mimo_while lib cfg nv st) = 1000 * int (j + k)
     \<and> (k = m \<or> mimo_break lib (mimo_while lib cfg nv st))
     \<and> (m = 0 \<or> 1 \<le> k)"
proof (induction m arbitrary: st j)
  case 0
  then have "\<not> nrof_bits st < nrof_max_bits"
    by (simp add: nrof_max_bits_def)
  then have "mimo_while lib cfg nv st = st"
    by (rule mimo_while_stop)
  with 0 show ?case by simp
next
  case (Suc m)
  let ?st' = "mimo_pass lib cfg nv st"
  from Suc.prems have lt: "nrof_bits st < nrof_max_bits"
    by (simp add: nrof_max_bits_def)
  have bits': "nrof_bits ?st' = 1000 * int (Suc j)"
    using Suc.prems(1) by (simp add: nrof_bits_mimo_pass)
  show ?case
  proof (cases "mimo_break lib ?st'")
    case True
    then have w: "mimo_while lib cfg nv st = ?st'"
      using lt by (simp add: mimo_while_step)
    have "(1::nat) \<le> Suc m \<and> mimo_while lib cfg nv st = (mimo_pass lib cfg nv ^^ 1) st
          \<and> nrof_bits (mimo_while lib cfg nv st) = 1000 * int (j + 1)
          \<and> (1 = Suc m \<or> mimo_break lib (mimo_while lib cfg nv st))
          \<and> (Suc m = 0 \<or> (1::nat) \<le> 1)"
      using True bits' by (simp add: w)
    then show ?thesis by blast
  next
    case False
    then have w: "mimo_while lib cfg nv st = mimo_while lib cfg nv ?st'"
      using lt by (simp add: mimo_while_step)
    from Suc.prems(2) have "Suc j + m = 50" by simp
    from Suc.IH[OF bits' this] obtain k where k: "k \<le> m"
      "mimo_while lib cfg nv ?st' = (mimo_pass lib cfg nv ^^ k) ?st'"
      "nrof_bits (mimo_while lib cfg nv ?st') = 1000 * int (Suc j + k)"
      "k = m \<or> mimo_break lib (mimo_while lib cfg nv ?st')"
      by blast
    have "Suc k \<le> Suc m \<and> mimo_while lib cfg nv st = (mimo_pass lib cfg nv ^^ Suc k) st
          \<and> nrof_bits (mimo_while lib cfg nv st) = 1000 * int (j + Suc k)
          \<and> (Suc k = Suc m \<or> mimo_break lib (mimo_while lib cfg nv st))
          \<and> (Suc m = 0 \<or> 1 \<le> Suc k)"
      using k by (simp add: w funpow_swap1)
    then show ?thesis by blast
  qed
qed

text \<open>
  C7. In the MIMO notebook, for every SNR point the inner \<open>while\<close> loop terminates
  (\<open>mimo_while\<close> is a total function, by its termination proof): started with \<open>nrof_bits = 0\<close>,
  it is \<open>k\<close> passes of its body for some \<open>k\<close> between 1 and 50 = \<open>nrof_max_bits / nrof_uncoded_bits\<close>,
  each pass adds \<open>nrof_uncoded_bits\<close> = 1000 to \<open>nrof_bits\<close>, and it stops before the 50th pass
  only when one of the two \<open>break\<close> tests holds: the coded bit error count exceeds
  \<open>nrof_bers\<close>, or the frame error count exceeds \<open>nrof_fers\<close>.
\<close>

theorem mimo_while_at_most_50_passes:
  "\<exists>k. 1 \<le> k \<and> k \<le> 50
     \<and> mimo_while lib cfg noise_variance (st\<lparr>nrof_bits := 0\<rparr>)
         = (mimo_pass lib cfg noise_variance ^^ k) (st\<lparr>nrof_bits := 0\<rparr>)
     \<and> nrof_bits (mimo_while lib cfg noise_variance (st\<lparr>nrof_bits := 0\<rparr>))
         = int nrof_uncoded_bits * int k
     \<and> (k = 50 \<or> mimo_break lib (mimo_while lib cfg noise_variance (st\<lparr>nrof_bits := 0\<rparr>)))
     \<and> nrof_max_bits = int nrof_uncoded_bits * 50"
proof -
  let ?s = "st\<lparr>nrof_bits := 0\<rparr>"
  have b0: "nrof_bits ?s = 1000 * int 0" by simp
  have m50: "(0::nat) + 50 = 50" by simp
  from mimo_while_from[OF b0 m50, where nv = noise_variance and lib = lib and cfg = cfg]
  obtain k where k: "k \<le> 50"
    "mimo_while lib cfg noise_variance ?s = (mimo_pass lib cfg noise_variance ^^ k) ?s"
    "nrof_bits (mimo_while lib cfg noise_variance ?s) = 1000 * int (0 + k)"
    "k = 50 \<or> mimo_break lib (mimo_while lib cfg noise_variance ?s)"
    "(50::nat) = 0 \<or> 1 \<le> k"
    by blast
  with k show ?thesis
    by (intro exI[of _ k]) (simp add: nrof_uncoded_bits_def nrof_max_bits_def)
qed

subsection \<open>The makerules fragment: flags and link paths\<close>

lemma split_blank_not_Nil: "split_blank v \<noteq> []"
  by (induction v) (auto split: list.splits)

lemma split_blank_append:
  "is_blank c \<Longrightarrow> split_blank (a @ c # b) = split_blank a @ split_blank b"
proof (induction a)
  case Nil
  then show ?case by simp
next
  case (Cons x a)
  then show ?case
    using split_blank_not_Nil[of a] by (cases "split_blank a") auto
qed

lemma make_words_append:
  "is_blank c \<Longrightarrow> make_words (a @ c # b) = make_words a @ make_words b"
  by (simp add: make_words_def split_blank_append)

lemma flag_between_blanks:
  assumes "make_words w = [w]"
  shows "w \<in> set (make_words (a @ CHR '' '' # w @ CHR '' '' # b))"
proof -
  have "is_blank CHR '' ''" by (simp add: is_blank_def)
  then have "make_words (a @ CHR '' '' # w @ CHR '' '' # b)
             = make_words a @ make_words w @ make_words b"
    by (simp add: make_words_append)
  with assms show ?thesis by simp
qed

lemma flags_python:
  "makerules env ''FLAGS_PYTHON'' =
     fast_math env ''FLAGS_COMMON'' @ '' '' @ fast_math env ''ARCH_FLAGS''
     @ '' -shared -O3 -std=c++11 -Wall -fPIC '' @ fast_math env ''FLAGS_COMMON_MATH''
     @ '' '' @ fast_math env ''ADDITIONAL_COMPILER_FLAGS'' @ '' '' @ fast_math env ''USER_FLAGS''"
  by (simp add: makerules_def assign_def expand_def)

text \<open>
  C9. Whatever the variables hold when makerules is read, it defines \<open>FLAGS_PYTHON\<close> with
  the flags \<open>-shared\<close>, \<open>-fPIC\<close>, \<open>-O3\<close> and \<open>-std=c++11\<close> among its words, the library search
  path \<open>LOCAL_LIBPATH\<close> as \<open>-L$(LOCAL_TARGET_DIR)\<close> and the link name \<open>LOCAL_LIB_SHARED\<close> as
  \<open>-l$(LIB_BASE_NAME)\<close>.
\<close>

theorem makerules_flags_and_link_paths:
  "''-shared'' \<in> set (make_words (makerules env ''FLAGS_PYTHON''))
   \<and> ''-fPIC'' \<in> set (make_words (makerules env ''FLAGS_PYTHON''))
   \<and> ''-O3'' \<in> set (make_words (makerules env ''FLAGS_PYTHON''))
   \<and> ''-std=c++11'' \<in> set (make_words (makerules env ''FLAGS_PYTHON''))
   \<and> makerules env ''LOCAL_LIBPATH'' = ''-L'' @ makerules env ''LOCAL_TARGET_DIR''
   \<and> makerules env ''LOCAL_LIB_SHARED'' = ''-l'' @ env ''LIB_BASE_NAME''"
proof -
  let ?A = "fast_math env ''FLAGS_COMMON'' @ '' '' @ fast_math env ''ARCH_FLAGS''"
  let ?B = "fast_math env ''FLAGS_COMMON_MATH'' @ '' '' @ fast_math env ''ADDITIONAL_COMPILER_FLAGS''
            @ '' '' @ fast_math env ''USER_FLAGS''"
  have w1: "make_words ''-shared'' = [''-shared'']"
    and w2: "make_words ''-fPIC'' = [''-fPIC'']"
    and w3: "make_words ''-O3'' = [''-O3'']"
    and w4: "make_words ''-std=c++11'' = [''-std=c++11'']"
    by (simp_all add: make_words_def is_blank_def)
  have e1: "makerules env ''FLAGS_PYTHON''
        = ?A @ CHR '' '' # ''-shared'' @ CHR '' '' # (''-O3 -std=c++11 -Wall -fPIC '' @ ?B)"
    by (simp add: flags_python)
  have f1: "''-shared'' \<in> set (make_words (makerules env ''FLAGS_PYTHON''))"
    unfolding e1 by (rule flag_between_blanks[OF w1])
  have e2: "makerules env ''FLAGS_PYTHON''
        = (?A @ '' -shared -O3 -std=c++11 -Wall'') @ CHR '' '' # ''-fPIC'' @ CHR '' '' # ?B"
    by (simp add: flags_python)
  have f2: "''-fPIC'' \<in> set (make_words (makerules env ''FLAGS_PYTHON''))"
    unfolding e2 by (rule flag_between_blanks[OF w2])
  have e3: "makerules env ''FLAGS_PYTHON''
        = (?A @ '' -shared'') @ CHR '' '' # ''-O3'' @ CHR '' '' # (''-std=c++11 -Wall -fPIC '' @ ?B)"
    by (simp add: flags_python)
  have f3: "''-O3'' \<in> set (make_words (makerules env ''FLAGS_PYTHON''))"
    unfolding e3 by (rule flag_between_blanks[OF w3])
  have e4: "makerules env ''FLAGS_PYTHON''
        = (?A @ '' -shared -O3'') @ CHR '' '' # ''-std=c++11'' @ CHR '' '' # (''-Wall -fPIC '' @ ?B)"
    by (simp add: flags_python)
  have f4: "''-std=c++11'' \<in> set (make_words (makerules env ''FLAGS_PYTHON''))"
    unfolding e4 by (rule flag_between_blanks[OF w4])
  have p: "makerules env ''LOCAL_LIBPATH'' = ''-L'' @ makerules env ''LOCAL_TARGET_DIR''"
    by (simp add: makerules_def assign_def expand_def)
  have l: "makerules env ''LOCAL_LIB_SHARED'' = ''-l'' @ env ''LIB_BASE_NAME''"
    by (simp add: makerules_def assign_def expand_def fast_math_def)
  from f1 f2 f3 f4 p l show ?thesis by simp
qed

subsection \<open>Where the reported error rates come from\<close>

lemma ofdm_symbols_eq:
  "ofdm_symbols lib md information_bits =
     ifft lib (modulate_bits lib md
                 (ofdm_transmit_bits (encode_tail lib conv_code information_bits)))
       nrof_subcarriers"
  by (simp add: ofdm_symbols_def Let_def)







declare convcode_iterations.simps(2) [simp del]






subsection \<open>The OFDM transmit chain has no interleaver\<close>

lemma conv_code_sizes:
  "length (generator_polynomials conv_code) = 3" "nat (constraint_length conv_code - 1) = 6"
  by (simp_all add: conv_code_def)

lemma sim_encode_tail_def:
  "encode_tail sim_itpp cc b
   = concat (map (replicate (length (generator_polynomials cc)))
               (b @ replicate (nat (constraint_length cc - 1)) False))"
  by (simp add: sim_itpp_def)

lemma sim_encode_tail_bits:
  "encode_tail sim_itpp conv_code b = concat (map (replicate 3) (b @ replicate 6 False))"
  by (simp only: sim_encode_tail_def conv_code_sizes)

lemma concat_replicate_False:
  "concat (replicate m (replicate k False)) = replicate (m * k) False"
  by (induction m) (simp_all add: replicate_add)

lemma sim_code_bits:
  "encode_tail sim_itpp conv_code (True # replicate 79 False)
   = replicate 3 True @ replicate 255 False"
  by (simp add: sim_encode_tail_bits concat_replicate_False replicate_add[symmetric])

lemma sim_modulate_bits: "modulate_bits sim_itpp md b = map (\<lambda>x. if x then - 1 else 1) b"
  by (simp add: sim_itpp_def)

lemma sim_ifft: "ifft sim_itpp x n = take n (x @ replicate n 0)"
  by (simp add: sim_itpp_def)

lemma sim_interleave: "interleave sim_itpp sequence b = map (\<lambda>j. b ! nat j) sequence"
  by (simp add: sim_itpp_def)

lemma sim_randomize:
  "randomize_interleaver_sequence sim_itpp n s
   = (map (\<lambda>i. int ((i + s) mod n)) [0..<n], Suc s)"
  by (simp add: sim_itpp_def)

lemma sim_ofdm_symbol_2:
  "ofdm_symbols sim_itpp BPSK_c (True # replicate 79 False) ! 2 = - 1"
  by (simp add: ofdm_symbols_def Let_def sim_code_bits ofdm_transmit_bits_def
        ofdm_nrof_transmit_bits_def nrof_subcarriers_def modulation_order_def left_def
        sim_modulate_bits sim_ifft nth_append)

lemma sim_interleaved_ofdm_symbol_2:
  "interleaved_ofdm_symbols sim_itpp BPSK_c
     (fst (randomize_interleaver_sequence sim_itpp 258 1)) (True # replicate 79 False) ! 2 = 1"
  by (simp add: interleaved_ofdm_symbols_def Let_def sim_code_bits ofdm_transmit_bits_def
        ofdm_nrof_transmit_bits_def nrof_subcarriers_def modulation_order_def left_def
        sim_modulate_bits sim_ifft sim_interleave sim_randomize nth_append
        del: upt_rec_numeral)

lemma ofdm_symbols_interleaver:
  "ofdm_symbols (lib\<lparr>randomize_interleaver_sequence := r, interleave := f, deinterleave := g\<rparr>)
     md information_bits
   = ofdm_symbols lib md information_bits"
  by (simp add: ofdm_symbols_def Let_def)

text \<open>
  C2. The OFDM notebook is the one that loads symbols onto subcarriers with the inverse FFT,
  but its transmit chain has no bit interleaver: in every channel use the coded bits are
  cut to the transmit length, modulated and passed to the inverse FFT, and the symbols
  sent are the same whatever the interleaver routines of the library are. For the
  information bits 1, 0, ..., 0 and the stand-in library, the third symbol sent is -1,
  where a chain that interleaves the coded bits with the rotation by one sends 1.
\<close>

theorem ofdm_symbols_not_interleaved:
  "ofdm_symbols lib md information_bits
     = ifft lib (modulate_bits lib md
                   (ofdm_transmit_bits (encode_tail lib conv_code information_bits)))
         nrof_subcarriers
   \<and> ofdm_symbols
       (lib\<lparr>randomize_interleaver_sequence := r, interleave := f, deinterleave := g\<rparr>)
       md information_bits
     = ofdm_symbols lib md information_bits
   \<and> ofdm_symbols sim_itpp BPSK_c (True # replicate 79 False) ! 2 = - 1
   \<and> interleaved_ofdm_symbols sim_itpp BPSK_c
       (fst (randomize_interleaver_sequence sim_itpp 258 1)) (True # replicate 79 False) ! 2 = 1"
  by (intro conjI)
     (rule ofdm_symbols_eq ofdm_symbols_interleaver sim_ofdm_symbol_2
        sim_interleaved_ofdm_symbol_2)+

subsection \<open>What is handed to the decoder\<close>



















subsection \<open>The three schemes and the routines their loops call\<close>









subsection \<open>Which draws follow the reset of the generator\<close>

text \<open>
  The OFDM and the convolutional-code notebook reset the generator before they draw
  anything, so what they compute does not depend on the state \<open>s0\<close> the generator is in when
  the first cell runs. In the MIMO notebook the loops start from the reset generator and
  depend on the earlier cells only through the coded block length and the interleaver
  sequence.
\<close>

lemma ofdm_notebook_entry_state: "ofdm_notebook lib s0 = ofdm_notebook lib s0'"
  by (simp add: ofdm_notebook_def)

lemma convcode_notebook_entry_state: "convcode_notebook lib s0 = convcode_notebook lib s0'"
  by (simp add: convcode_notebook_def)

lemma mimo_cell_6_rng: "rng (mimo_cell_6 lib cfg) = RNG_reset lib 42"
  by (simp add: mimo_cell_6_def)

lemma mimo_notebook_setup:
  "fst (mimo_cells_2_to_4 lib s0) = fst (mimo_cells_2_to_4 lib s0') \<Longrightarrow>
   mimo_notebook lib s0 = mimo_notebook lib s0'"
  by (simp add: mimo_notebook_def)


subsection \<open>What the notebooks save and plot\<close>








end
